theory Spec2Isabelle
  imports Main
begin

section \<open>JavaScript values used by the screens\<close>

text \<open>
  The screens handle their records as untyped objects (\<^verbatim>\<open>any\<close>). An object is an
  association list from property names to string values; reading a property that is
  not there gives \<open>None\<close>, the model of \<^verbatim>\<open>undefined\<close>. Every property the handlers read
  (\<^verbatim>\<open>id\<close>, \<^verbatim>\<open>email\<close>, \<^verbatim>\<open>status\<close>, \<^verbatim>\<open>customer_email\<close>, \<^verbatim>\<open>customer_name\<close>) is a string.
  A string is the list of the bytes of its UTF-8 encoding. The handlers compare
  strings, join them and test them for emptiness, which the bytes decide as the
  JavaScript strings do, and every literal of the code is ASCII. The two builtins
  that look into the characters, \<^verbatim>\<open>String.prototype.trim\<close> and
  \<^verbatim>\<open>String.prototype.toLowerCase\<close>, belong to the JavaScript engine and not to this
  code: the functions that call them take them as the parameters \<open>trim\<close> and
  \<open>toLowerCase\<close>.
\<close>

type_synonym js_object = "(string \<times> string) list"

definition get_field :: "js_object \<Rightarrow> string \<Rightarrow> string option" where
  "get_field obj k = map_of obj k"

text \<open>\<^verbatim>\<open>{ ...r, k: v }\<close>: the property keeps its place when \<open>r\<close> has it, and is added
  last otherwise.\<close>

fun spread_with :: "js_object \<Rightarrow> string \<Rightarrow> string \<Rightarrow> js_object" where
  "spread_with [] k v = [(k, v)]"
| "spread_with ((k', v') # r) k v =
     (if k' = k then (k, v) # r else (k', v') # spread_with r k v)"

text \<open>A property of an object literal whose value may be \<^verbatim>\<open>undefined\<close>: reading it
  gives \<^verbatim>\<open>undefined\<close> whether the key is there or not, so the key is left out.\<close>

definition literal_field :: "string \<Rightarrow> string option \<Rightarrow> js_object" where
  "literal_field k v = (case v of None \<Rightarrow> [] | Some x \<Rightarrow> [(k, x)])"

text \<open>\<^verbatim>\<open>x || dflt\<close> on a string that may be \<^verbatim>\<open>undefined\<close>: the empty string is falsy
  too.\<close>

definition or_default :: "string option \<Rightarrow> string \<Rightarrow> string" where
  "or_default x dflt = (case x of None \<Rightarrow> dflt | Some s \<Rightarrow> if s = [] then dflt else s)"


section \<open>The subscriptions screen\<close>

text \<open>
  \<^verbatim>\<open>SubscriptionsScreen\<close> keeps the subscribers in the application store and the rest
  in component state. Every setter replaces a value; the state also records, in
  \<open>trace\<close>, each effect in the order the code performs it: the setter calls, the
  haptic feedback and the requests sent to the remote API.
\<close>

datatype tab_type = Subscribers_tab | Requests_tab

datatype feedback = Haptic_success | Haptic_error

datatype api_call =
    Subscriber_create string
  | Subscriber_delete string
  | Request_approve string
  | Request_delete string

datatype effect =
    Subscribers_set "js_object list"
  | Requests_set "js_object list"
  | ShowAddModal_set bool
  | NewEmail_set string
  | ShowConfetti_set bool
  | Loading_set bool
  | Error_set "string option"
  | Haptic feedback
  | Request api_call

record screen_state =
  store_subscribers :: "js_object list"
  requests_state :: "js_object list"
  activeTab :: tab_type
  refreshing :: bool
  showAddModal :: bool
  newEmail_state :: string
  loading :: bool
  error :: "string option"
  showConfetti :: bool
  trace :: "effect list"

text \<open>
  A handler is a closure of one render: \<^verbatim>\<open>subscribers\<close>, \<^verbatim>\<open>requests\<close> and \<^verbatim>\<open>newEmail\<close>
  in its body are the values that render read, and stay so after an \<^verbatim>\<open>await\<close>,
  whatever the setters have stored since.
\<close>

record closure =
  subscribers :: "js_object list"
  requests :: "js_object list"
  newEmail :: string

definition render :: "screen_state \<Rightarrow> closure" where
  "render s = \<lparr>subscribers = store_subscribers s, requests = requests_state s,
               newEmail = newEmail_state s\<rparr>"

definition setSubscribers :: "js_object list \<Rightarrow> screen_state \<Rightarrow> screen_state" where
  "setSubscribers xs s = s\<lparr>store_subscribers := xs, trace := trace s @ [Subscribers_set xs]\<rparr>"

definition setRequests :: "js_object list \<Rightarrow> screen_state \<Rightarrow> screen_state" where
  "setRequests xs s = s\<lparr>requests_state := xs, trace := trace s @ [Requests_set xs]\<rparr>"

definition setShowAddModal :: "bool \<Rightarrow> screen_state \<Rightarrow> screen_state" where
  "setShowAddModal b s = s\<lparr>showAddModal := b, trace := trace s @ [ShowAddModal_set b]\<rparr>"

definition setNewEmail :: "string \<Rightarrow> screen_state \<Rightarrow> screen_state" where
  "setNewEmail e s = s\<lparr>newEmail_state := e, trace := trace s @ [NewEmail_set e]\<rparr>"

definition setShowConfetti :: "bool \<Rightarrow> screen_state \<Rightarrow> screen_state" where
  "setShowConfetti b s = s\<lparr>showConfetti := b, trace := trace s @ [ShowConfetti_set b]\<rparr>"

definition setLoading :: "bool \<Rightarrow> screen_state \<Rightarrow> screen_state" where
  "setLoading b s = s\<lparr>loading := b, trace := trace s @ [Loading_set b]\<rparr>"

definition setError :: "string option \<Rightarrow> screen_state \<Rightarrow> screen_state" where
  "setError e s = s\<lparr>error := e, trace := trace s @ [Error_set e]\<rparr>"

definition notificationAsync :: "feedback \<Rightarrow> screen_state \<Rightarrow> screen_state" where
  "notificationAsync f s = s\<lparr>trace := trace s @ [Haptic f]\<rparr>"

text \<open>Calling a method of \<^verbatim>\<open>subscriberApi\<close> or \<^verbatim>\<open>subscriptionRequestApi\<close> sends the
  request; its answer comes later, as a \<open>response\<close>.\<close>

definition send :: "api_call \<Rightarrow> screen_state \<Rightarrow> screen_state" where
  "send r s = s\<lparr>trace := trace s @ [Request r]\<rparr>"

text \<open>The promise resolves with \<^verbatim>\<open>res.data\<close>, or rejects with an error whose
  \<^verbatim>\<open>response?.data?.detail\<close> may be missing.\<close>

datatype response = Resolved js_object | Rejected "string option"

text \<open>
  An \<^verbatim>\<open>async\<close> handler runs up to its \<^verbatim>\<open>await\<close> and returns to its caller. What is
  left of it is the code after the \<^verbatim>\<open>await\<close> with the handler's local constants:
  the closure, and \<^verbatim>\<open>tempId\<close>, \<^verbatim>\<open>subToDelete\<close>, \<^verbatim>\<open>reqId\<close> and \<^verbatim>\<open>request\<close>, or
  \<^verbatim>\<open>reqToDelete\<close>.
\<close>

datatype pending =
    Await_create closure string
  | Await_delete closure js_object
  | Await_approve closure string js_object
  | Await_delete_request closure js_object

definition has_id :: "string \<Rightarrow> js_object \<Rightarrow> bool" where
  "has_id i obj = (get_field obj ''id'' = Some i)"

subsection \<open>handleAddSubscriber\<close>

text \<open>\<open>now\<close> is \<^verbatim>\<open>Date.now()\<close> in decimal and \<open>stamp\<close> is
  \<^verbatim>\<open>new Date().toISOString()\<close>, as read by the handler.\<close>

definition handleAddSubscriber ::
  "(string \<Rightarrow> string) \<Rightarrow> closure \<Rightarrow> string \<Rightarrow> string \<Rightarrow> screen_state
     \<Rightarrow> screen_state \<times> pending option" where
  "handleAddSubscriber trim c now stamp s =
     (if trim (newEmail c) = [] then (s, None)
      else
        let tempId = ''temp-'' @ now;
            optimisticSub =
              [(''id'', tempId), (''email'', trim (newEmail c)), (''created_at'', stamp)];
            s1 = setSubscribers (optimisticSub # subscribers c) s;
            s2 = setShowAddModal False s1;
            s3 = setNewEmail [] s2;
            s4 = setShowConfetti True s3;
            s5 = setLoading True s4;
            s6 = send (Subscriber_create (trim (newEmail c))) s5
        in (s6, Some (Await_create c tempId)))"

definition handleAddSubscriber_resume ::
  "closure \<Rightarrow> string \<Rightarrow> response \<Rightarrow> screen_state \<Rightarrow> screen_state" where
  "handleAddSubscriber_resume c tempId r s =
     (case r of
        Resolved data \<Rightarrow>
          let s1 = setSubscribers
                     (data # filter (\<lambda>x. \<not> has_id tempId x) (subscribers c)) s;
              s2 = notificationAsync Haptic_success s1
          in setLoading False s2
      | Rejected detail \<Rightarrow>
          let s1 = setSubscribers (filter (\<lambda>x. \<not> has_id tempId x) (subscribers c)) s;
              s2 = setError (Some (or_default detail ''Failed to add subscriber'')) s1;
              s3 = notificationAsync Haptic_error s2
          in setLoading False s3)"

subsection \<open>handleDeleteSubscriber\<close>

definition handleDeleteSubscriber ::
  "closure \<Rightarrow> string \<Rightarrow> screen_state \<Rightarrow> screen_state \<times> pending option" where
  "handleDeleteSubscriber c subId s =
     (case find (has_id subId) (subscribers c) of
        None \<Rightarrow> (s, None)
      | Some subToDelete \<Rightarrow>
          let s1 = setSubscribers (filter (\<lambda>x. \<not> has_id subId x) (subscribers c)) s;
              s2 = send (Subscriber_delete subId) s1
          in (s2, Some (Await_delete c subToDelete)))"

definition handleDeleteSubscriber_resume ::
  "closure \<Rightarrow> js_object \<Rightarrow> response \<Rightarrow> screen_state \<Rightarrow> screen_state" where
  "handleDeleteSubscriber_resume c subToDelete r s =
     (case r of
        Resolved data \<Rightarrow> notificationAsync Haptic_success s
      | Rejected detail \<Rightarrow>
          let s1 = setSubscribers (subscribers c @ [subToDelete]) s
          in setError (Some (or_default detail ''Failed to delete subscriber'')) s1)"

subsection \<open>handleApproveRequest\<close>

definition set_status :: "string \<Rightarrow> string \<Rightarrow> js_object \<Rightarrow> js_object" where
  "set_status reqId v r = (if has_id reqId r then spread_with r ''status'' v else r)"

definition handleApproveRequest ::
  "closure \<Rightarrow> string \<Rightarrow> screen_state \<Rightarrow> screen_state \<times> pending option" where
  "handleApproveRequest c reqId s =
     (case find (has_id reqId) (requests c) of
        None \<Rightarrow> (s, None)
      | Some request \<Rightarrow>
          let s1 = setRequests (map (set_status reqId ''approved'') (requests c)) s;
              s2 = setShowConfetti True s1;
              s3 = send (Request_approve reqId) s2
          in (s3, Some (Await_approve c reqId request)))"

text \<open>After the \<^verbatim>\<open>await\<close> the handler reads the clock again, for the id and the date
  of the subscriber it adds.\<close>

definition handleApproveRequest_resume ::
  "closure \<Rightarrow> string \<Rightarrow> js_object \<Rightarrow> response \<Rightarrow> string \<Rightarrow> string \<Rightarrow>
     screen_state \<Rightarrow> screen_state" where
  "handleApproveRequest_resume c reqId request r now stamp s =
     (case r of
        Resolved data \<Rightarrow>
          let newSub = [(''id'', ''sub-'' @ now)]
                       @ literal_field ''email'' (get_field request ''customer_email'')
                       @ literal_field ''name'' (get_field request ''customer_name'')
                       @ [(''created_at'', stamp)];
              s1 = setSubscribers (newSub # subscribers c) s
          in notificationAsync Haptic_success s1
      | Rejected detail \<Rightarrow>
          let s1 = setRequests (map (set_status reqId ''pending'') (requests c)) s
          in setError (Some (or_default detail ''Failed to approve request'')) s1)"

subsection \<open>handleDeleteRequest\<close>

definition handleDeleteRequest ::
  "closure \<Rightarrow> string \<Rightarrow> screen_state \<Rightarrow> screen_state \<times> pending option" where
  "handleDeleteRequest c reqId s =
     (case find (has_id reqId) (requests c) of
        None \<Rightarrow> (s, None)
      | Some reqToDelete \<Rightarrow>
          let s1 = setRequests (filter (\<lambda>x. \<not> has_id reqId x) (requests c)) s;
              s2 = send (Request_delete reqId) s1
          in (s2, Some (Await_delete_request c reqToDelete)))"

definition handleDeleteRequest_resume ::
  "closure \<Rightarrow> js_object \<Rightarrow> response \<Rightarrow> screen_state \<Rightarrow> screen_state" where
  "handleDeleteRequest_resume c reqToDelete r s =
     (case r of
        Resolved data \<Rightarrow> notificationAsync Haptic_success s
      | Rejected detail \<Rightarrow>
          let s1 = setRequests (requests c @ [reqToDelete]) s
          in setError (Some (or_default detail ''Failed to delete request'')) s1)"


subsection \<open>The screen between events\<close>

text \<open>The values of the \<^verbatim>\<open>useState\<close> calls at the first render, over the subscribers
  the store holds.\<close>

definition initial_screen :: "js_object list \<Rightarrow> screen_state" where
  "initial_screen subs =
     \<lparr>store_subscribers = subs, requests_state = [], activeTab = Subscribers_tab,
      refreshing = False, showAddModal = False, newEmail_state = [], loading = False,
      error = None, showConfetti = False, trace = []\<rparr>"

text \<open>
  What the user can start: the Add button of the modal (with the clock readings the
  handler will make), the delete gesture on a subscriber row, the approve button and
  the delete gesture on a request row.
\<close>

datatype action =
    Add_pressed string string
  | Subscriber_swiped string
  | Approve_pressed string
  | Request_swiped string

fun invoke ::
  "(string \<Rightarrow> string) \<Rightarrow> action \<Rightarrow> closure \<Rightarrow> screen_state \<Rightarrow> screen_state \<times> pending option" where
  "invoke trim (Add_pressed now stamp) c s = handleAddSubscriber trim c now stamp s"
| "invoke trim (Subscriber_swiped subId) c s = handleDeleteSubscriber c subId s"
| "invoke trim (Approve_pressed reqId) c s = handleApproveRequest c reqId s"
| "invoke trim (Request_swiped reqId) c s = handleDeleteRequest c reqId s"

text \<open>The code after the \<^verbatim>\<open>await\<close>, run when the promise settles; \<open>now\<close> and \<open>stamp\<close>
  are the clock readings at that moment.\<close>

fun resume :: "pending \<Rightarrow> response \<Rightarrow> string \<Rightarrow> string \<Rightarrow> screen_state \<Rightarrow> screen_state" where
  "resume (Await_create c tempId) r now stamp s = handleAddSubscriber_resume c tempId r s"
| "resume (Await_delete c subToDelete) r now stamp s =
     handleDeleteSubscriber_resume c subToDelete r s"
| "resume (Await_approve c reqId request) r now stamp s =
     handleApproveRequest_resume c reqId request r now stamp s"
| "resume (Await_delete_request c reqToDelete) r now stamp s =
     handleDeleteRequest_resume c reqToDelete r s"

text \<open>The closure a suspended handler holds: its snapshot of the lists.\<close>

fun captured :: "pending \<Rightarrow> closure" where
  "captured (Await_create c tempId) = c"
| "captured (Await_delete c subToDelete) = c"
| "captured (Await_approve c reqId request) = c"
| "captured (Await_delete_request c reqToDelete) = c"

text \<open>
  The screen together with the handlers that are suspended at their \<^verbatim>\<open>await\<close>, oldest
  first. \<open>press\<close> runs the handler of the current render up to its \<^verbatim>\<open>await\<close>
  (React renders again after a setter call, before it delivers the next event);
  \<open>settle\<close> delivers the answer to the \<open>i\<close>-th suspended handler and runs the rest of
  it. Answers may arrive in any order.
\<close>

record world =
  screen :: screen_state
  awaiting :: "pending list"

definition press :: "(string \<Rightarrow> string) \<Rightarrow> action \<Rightarrow> world \<Rightarrow> world" where
  "press trim a w =
     (case invoke trim a (render (screen w)) (screen w) of
        (s', p) \<Rightarrow>
          \<lparr>screen = s', awaiting = awaiting w @ (case p of None \<Rightarrow> [] | Some k \<Rightarrow> [k])\<rparr>)"

definition settle :: "nat \<Rightarrow> response \<Rightarrow> string \<Rightarrow> string \<Rightarrow> world \<Rightarrow> world" where
  "settle i r now stamp w =
     (if i < length (awaiting w)
      then \<lparr>screen = resume (awaiting w ! i) r now stamp (screen w),
            awaiting = take i (awaiting w) @ drop (Suc i) (awaiting w)\<rparr>
      else w)"

definition is_request :: "effect \<Rightarrow> bool" where
  "is_request e = (case e of Request r \<Rightarrow> True | _ \<Rightarrow> False)"

text \<open>
  What the rollback of a suspended handler leaves in the list it writes, in terms of
  the screen \<open>before\<close> the handler ran: for a create, the list of then without the
  records of the temporary id; for an approve, the list of then with the request set
  to pending; for a delete, a list with the same records as the list of then (how
  often and in which order is not said).
\<close>

definition written_from_snapshot :: "pending \<Rightarrow> screen_state \<Rightarrow> screen_state \<Rightarrow> bool" where
  "written_from_snapshot k before after =
     (case k of
        Await_create c tempId \<Rightarrow>
          store_subscribers after = filter (\<lambda>x. \<not> has_id tempId x) (store_subscribers before)
      | Await_delete c subToDelete \<Rightarrow>
          set (store_subscribers after) = set (store_subscribers before)
      | Await_approve c reqId request \<Rightarrow>
          requests_state after = map (set_status reqId ''pending'') (requests_state before)
      | Await_delete_request c reqToDelete \<Rightarrow>
          set (requests_state after) = set (requests_state before))"


section \<open>The local database schema\<close>

text \<open>The WatermelonDB schema: a column without \<^verbatim>\<open>isOptional\<close> or \<^verbatim>\<open>isIndexed\<close> has
  the flag false.\<close>

datatype column_type = String_type | Number_type | Boolean_type

datatype column =
  Column (name: string) (column_type: column_type) (isOptional: bool) (isIndexed: bool)

datatype table_schema = TableSchema (table_name: string) (columns: "column list")

record app_schema =
  version :: nat
  tables :: "table_schema list"

definition required :: "string \<Rightarrow> column_type \<Rightarrow> column" where
  "required n t = Column n t False False"

definition optional :: "string \<Rightarrow> column_type \<Rightarrow> column" where
  "optional n t = Column n t True False"

definition indexed :: "column \<Rightarrow> column" where
  "indexed c = Column (name c) (column_type c) (isOptional c) True"

definition appSchema :: app_schema where
  "appSchema = \<lparr>version = 1, tables =
     [TableSchema ''car_brands''
        [required ''server_id'' String_type,
         required ''name'' String_type,
         required ''name_ar'' String_type,
         optional ''logo'' String_type,
         required ''created_at'' Number_type,
         required ''updated_at'' Number_type],
      TableSchema ''car_models''
        [required ''server_id'' String_type,
         indexed (required ''brand_id'' String_type),
         required ''name'' String_type,
         required ''name_ar'' String_type,
         optional ''year_start'' Number_type,
         optional ''year_end'' Number_type,
         optional ''image_url'' String_type,
         optional ''description'' String_type,
         optional ''description_ar'' String_type,
         optional ''variants'' String_type,
         required ''created_at'' Number_type,
         required ''updated_at'' Number_type],
      TableSchema ''product_brands''
        [required ''server_id'' String_type,
         required ''name'' String_type,
         optional ''name_ar'' String_type,
         optional ''logo'' String_type,
         optional ''country_of_origin'' String_type,
         optional ''country_of_origin_ar'' String_type,
         required ''created_at'' Number_type,
         required ''updated_at'' Number_type],
      TableSchema ''categories''
        [required ''server_id'' String_type,
         required ''name'' String_type,
         required ''name_ar'' String_type,
         indexed (optional ''parent_id'' String_type),
         optional ''icon'' String_type,
         required ''sort_order'' Number_type,
         required ''created_at'' Number_type,
         required ''updated_at'' Number_type],
      TableSchema ''products''
        [required ''server_id'' String_type,
         required ''name'' String_type,
         required ''name_ar'' String_type,
         optional ''description'' String_type,
         optional ''description_ar'' String_type,
         required ''price'' Number_type,
         indexed (required ''sku'' String_type),
         indexed (optional ''product_brand_id'' String_type),
         indexed (optional ''category_id'' String_type),
         optional ''image_url'' String_type,
         optional ''images'' String_type,
         optional ''car_model_ids'' String_type,
         required ''stock_quantity'' Number_type,
         required ''hidden_status'' Boolean_type,
         required ''created_at'' Number_type,
         required ''updated_at'' Number_type],
      TableSchema ''favorites''
        [optional ''server_id'' String_type,
         indexed (required ''user_id'' String_type),
         indexed (required ''product_id'' String_type),
         required ''created_at'' Number_type,
         required ''updated_at'' Number_type],
      TableSchema ''cart_items''
        [indexed (required ''product_id'' String_type),
         required ''quantity'' Number_type,
         required ''created_at'' Number_type,
         required ''updated_at'' Number_type],
      TableSchema ''sync_metadata''
        [indexed (required ''table_name'' String_type),
         required ''last_pulled_at'' Number_type]]\<rparr>"

text \<open>The declaration of a column of a table, if the schema has it.\<close>

definition column_of :: "string \<Rightarrow> string \<Rightarrow> column option" where
  "column_of t n =
     (case find (\<lambda>x. table_name x = t) (tables appSchema) of
        None \<Rightarrow> None
      | Some x \<Rightarrow> find (\<lambda>c. name c = n) (columns x))"

text \<open>What the claim asks of a table: a string column \<^verbatim>\<open>server_id\<close> that may be absent,
  and the two timestamps.\<close>

definition optional_server_id :: "string \<Rightarrow> bool" where
  "optional_server_id t = (column_of t ''server_id'' = Some (optional ''server_id'' String_type))"

definition has_timestamps :: "string \<Rightarrow> bool" where
  "has_timestamps t =
     (column_of t ''created_at'' = Some (required ''created_at'' Number_type) \<and>
      column_of t ''updated_at'' = Some (required ''updated_at'' Number_type))"


section \<open>The tab layout\<close>

definition OWNER_EMAIL :: string where
  "OWNER_EMAIL = ''pc.2025.ai@gmail.com''"

text \<open>\<^verbatim>\<open>user?.email\<close>: the user is \<^verbatim>\<open>null\<close> when nobody is signed in.\<close>

definition user_email :: "js_object option \<Rightarrow> string option" where
  "user_email user = (case user of None \<Rightarrow> None | Some u \<Rightarrow> get_field u ''email'')"

text \<open>\<^verbatim>\<open>x?.toLowerCase()\<close> is \<^verbatim>\<open>undefined\<close> when \<open>x\<close> is.\<close>

definition optional_toLowerCase :: "(string \<Rightarrow> string) \<Rightarrow> string option \<Rightarrow> string option" where
  "optional_toLowerCase toLowerCase x =
     (case x of None \<Rightarrow> None | Some s \<Rightarrow> Some (toLowerCase s))"

definition isOwner :: "(string \<Rightarrow> string) \<Rightarrow> js_object option \<Rightarrow> bool" where
  "isOwner toLowerCase user =
     (optional_toLowerCase toLowerCase (user_email user) = Some (toLowerCase OWNER_EMAIL))"

definition isPartner :: "(string \<Rightarrow> string) \<Rightarrow> js_object list \<Rightarrow> js_object option \<Rightarrow> bool" where
  "isPartner toLowerCase partners user =
     list_ex (\<lambda>p. optional_toLowerCase toLowerCase (get_field p ''email'')
                  = optional_toLowerCase toLowerCase (user_email user)) partners"

definition canAccessOwner ::
  "(string \<Rightarrow> string) \<Rightarrow> js_object list \<Rightarrow> js_object option \<Rightarrow> bool" where
  "canAccessOwner toLowerCase partners user =
     (isOwner toLowerCase user \<or> isPartner toLowerCase partners user)"

text \<open>The names of the \<^verbatim>\<open>Tabs.Screen\<close> elements \<open>TabLayout\<close> returns, in order.\<close>

definition TabLayout ::
  "(string \<Rightarrow> string) \<Rightarrow> js_object list \<Rightarrow> js_object option \<Rightarrow> string list" where
  "TabLayout toLowerCase partners user =
     [''index'', ''categories'']
     @ (if canAccessOwner toLowerCase partners user then [''owner-access''] else [])
     @ [''cart'', ''profile'']"


section \<open>The order status indicator\<close>

record status_config =
  color :: string
  pulse :: bool
  label :: string

definition STATUS_CONFIG :: "(string \<times> status_config) list" where
  "STATUS_CONFIG =
     [(''no_active_order'', \<lparr>color = ''#3B82F6'', pulse = False, label = ''No Active Order''\<rparr>),
      (''delivered'', \<lparr>color = ''#3B82F6'', pulse = False, label = ''Delivered''\<rparr>),
      (''pending'', \<lparr>color = ''#EF4444'', pulse = True, label = ''Order Placed''\<rparr>),
      (''confirmed'', \<lparr>color = ''#EF4444'', pulse = True, label = ''Confirmed''\<rparr>),
      (''preparing'', \<lparr>color = ''#FBBF24'', pulse = True, label = ''Preparing''\<rparr>),
      (''shipped'', \<lparr>color = ''#10B981'', pulse = True, label = ''Shipped''\<rparr>),
      (''out_for_delivery'', \<lparr>color = ''#3B82F6'', pulse = True, label = ''Out for Delivery''\<rparr>),
      (''cancelled'', \<lparr>color = ''#6B7280'', pulse = False, label = ''Cancelled''\<rparr>)]"

text \<open>
  \<^verbatim>\<open>STATUS_CONFIG\<close> is an object literal, so \<^verbatim>\<open>STATUS_CONFIG[status]\<close> also finds what
  the object inherits from \<^verbatim>\<open>Object.prototype\<close>: the properties ECMAScript gives
  every object. Each of them is a function, or for \<^verbatim>\<open>__proto__\<close> the prototype itself:
  a truthy value with no \<^verbatim>\<open>color\<close> and no \<^verbatim>\<open>pulse\<close>.
\<close>

definition object_prototype_keys :: "string list" where
  "object_prototype_keys =
     [''constructor'', ''hasOwnProperty'', ''isPrototypeOf'', ''propertyIsEnumerable'',
      ''toLocaleString'', ''toString'', ''valueOf'', ''__proto__'',
      ''__defineGetter__'', ''__defineSetter__'', ''__lookupGetter__'', ''__lookupSetter__'']"

datatype js_value = Config status_config | Inherited | Undefined

definition index_STATUS_CONFIG :: "string \<Rightarrow> js_value" where
  "index_STATUS_CONFIG key =
     (case map_of STATUS_CONFIG key of
        Some c \<Rightarrow> Config c
      | None \<Rightarrow> if key \<in> set object_prototype_keys then Inherited else Undefined)"

text \<open>\<^verbatim>\<open>a || b\<close>: only \<^verbatim>\<open>undefined\<close> is falsy among these values.\<close>

definition or_else :: "js_value \<Rightarrow> js_value \<Rightarrow> js_value" where
  "or_else a b = (case a of Undefined \<Rightarrow> b | _ \<Rightarrow> a)"

definition config_color :: "js_value \<Rightarrow> string option" where
  "config_color v = (case v of Config c \<Rightarrow> Some (color c) | _ \<Rightarrow> None)"

definition config_pulse :: "js_value \<Rightarrow> bool option" where
  "config_pulse v = (case v of Config c \<Rightarrow> Some (pulse c) | _ \<Rightarrow> None)"

text \<open>What the component renders from \<open>config\<close>: the colour of the dot, whether the
  pulse animation runs (\<^verbatim>\<open>if (shouldPulse)\<close>, false for \<^verbatim>\<open>undefined\<close>), and the shadow
  radius and elevation chosen by \<^verbatim>\<open>shouldPulse ? 8 : 2\<close>. The size of the dot and
  the arrow shown for several active orders, which takes the same colour, are left
  out.\<close>

record indicator =
  backgroundColor :: "string option"
  pulsing :: bool
  shadowRadius :: nat
  elevation :: nat

text \<open>The \<open>status\<close> prop is \<open>None\<close> when the caller leaves it out; the parameter's
  default applies then.\<close>

definition OrderStatusIndicator :: "string option \<Rightarrow> indicator" where
  "OrderStatusIndicator status_prop =
     (let status = (case status_prop of None \<Rightarrow> ''no_active_order'' | Some s \<Rightarrow> s);
          config = or_else (index_STATUS_CONFIG status) (index_STATUS_CONFIG ''no_active_order'');
          shouldPulse = (config_pulse config = Some True)
      in \<lparr>backgroundColor = config_color config, pulsing = shouldPulse,
          shadowRadius = (if shouldPulse then 8 else 2),
          elevation = (if shouldPulse then 8 else 2)\<rparr>)"


section \<open>Example data\<close>

text \<open>
  For concrete inputs, \<^verbatim>\<open>String.prototype.trim\<close> on UTF-8 bytes: it removes, at both
  ends, the white space and line terminators of ECMAScript, which are the code
  points U+0009 to U+000D and U+0020 (one byte each), U+00A0 (two bytes), and U+1680,
  U+2000 to U+200A, U+2028, U+2029, U+202F, U+205F, U+3000 and U+FEFF (three bytes
  each).
\<close>

definition ascii_white_space :: "char \<Rightarrow> bool" where
  "ascii_white_space a =
     (a = CHR 0x09 \<or> a = CHR 0x0A \<or> a = CHR 0x0B \<or> a = CHR 0x0C \<or> a = CHR 0x0D \<or> a = CHR 0x20)"

definition white_space_3 :: "string list" where
  "white_space_3 =
     [[CHR 0xE1, CHR 0x9A, CHR 0x80],
      [CHR 0xE2, CHR 0x80, CHR 0x80], [CHR 0xE2, CHR 0x80, CHR 0x81],
      [CHR 0xE2, CHR 0x80, CHR 0x82], [CHR 0xE2, CHR 0x80, CHR 0x83],
      [CHR 0xE2, CHR 0x80, CHR 0x84], [CHR 0xE2, CHR 0x80, CHR 0x85],
      [CHR 0xE2, CHR 0x80, CHR 0x86], [CHR 0xE2, CHR 0x80, CHR 0x87],
      [CHR 0xE2, CHR 0x80, CHR 0x88], [CHR 0xE2, CHR 0x80, CHR 0x89],
      [CHR 0xE2, CHR 0x80, CHR 0x8A],
      [CHR 0xE2, CHR 0x80, CHR 0xA8], [CHR 0xE2, CHR 0x80, CHR 0xA9],
      [CHR 0xE2, CHR 0x80, CHR 0xAF], [CHR 0xE2, CHR 0x81, CHR 0x9F],
      [CHR 0xE3, CHR 0x80, CHR 0x80], [CHR 0xEF, CHR 0xBB, CHR 0xBF]]"

fun trimStart :: "string \<Rightarrow> string" where
  "trimStart [] = []"
| "trimStart (a # s) =
     (if ascii_white_space a then trimStart s
      else if a = CHR 0xC2 \<and> take 1 s = [CHR 0xA0] then trimStart (drop 1 s)
      else if a # take 2 s \<in> set white_space_3 then trimStart (drop 2 s)
      else a # s)"

text \<open>The same from the end, on the reversed string.\<close>

fun trimEnd_reversed :: "string \<Rightarrow> string" where
  "trimEnd_reversed [] = []"
| "trimEnd_reversed (a # s) =
     (if ascii_white_space a then trimEnd_reversed s
      else if a = CHR 0xA0 \<and> take 1 s = [CHR 0xC2] then trimEnd_reversed (drop 1 s)
      else if rev (a # take 2 s) \<in> set white_space_3 then trimEnd_reversed (drop 2 s)
      else a # s)"

definition trim_utf8 :: "string \<Rightarrow> string" where
  "trim_utf8 s = rev (trimEnd_reversed (rev (trimStart s)))"

text \<open>A subscriber as the server returns it, a pending subscription request, and the
  screens used as concrete inputs below.\<close>

definition alice :: js_object where
  "alice = [(''id'', ''7''), (''email'', ''alice@example.com''),
            (''created_at'', ''2024-01-05T10:00:00.000Z'')]"

definition request_r1 :: js_object where
  "request_r1 = [(''id'', ''r1''), (''customer_name'', ''Bob''),
                 (''customer_email'', ''bob@example.com''), (''status'', ''pending'')]"

definition screen_with_alice :: world where
  "screen_with_alice = \<lparr>screen = initial_screen [alice], awaiting = []\<rparr>"

definition screen_with_request :: world where
  "screen_with_request =
     \<lparr>screen = (initial_screen [])\<lparr>requests_state := [request_r1]\<rparr>, awaiting = []\<rparr>"

text \<open>The add modal is open and the user has typed an email, with a space before it
  and a no-break space (U+00A0) after it.\<close>

definition add_modal_filled :: screen_state where
  "add_modal_filled =
     (initial_screen [alice])\<lparr>showAddModal := True,
        newEmail_state := '' bob@example.com'' @ [CHR 0xC2, CHR 0xA0]\<rparr>"

definition temp_bob :: js_object where
  "temp_bob = [(''id'', ''temp-1700000000000''), (''email'', ''bob@example.com''),
               (''created_at'', ''2023-11-14T22:13:20.000Z'')]"

definition server_bob :: js_object where
  "server_bob = [(''id'', ''S1''), (''email'', ''bob@example.com''),
                 (''created_at'', ''2023-11-14T22:13:20.450Z'')]"

text \<open>The screen once \<open>handleAddSubscriber\<close> has run up to its \<^verbatim>\<open>await\<close> on
  \<open>add_modal_filled\<close>, and the closure it ran with.\<close>

definition add_sent :: screen_state where
  "add_sent =
     add_modal_filled\<lparr>store_subscribers := [temp_bob, alice], showAddModal := False,
       newEmail_state := [], showConfetti := True, loading := True,
       trace := [Subscribers_set [temp_bob, alice], ShowAddModal_set False, NewEmail_set [],
                 ShowConfetti_set True, Loading_set True,
                 Request (Subscriber_create ''bob@example.com'')]\<rparr>"


section \<open>Facts shared by the proofs\<close>

lemmas setters = setSubscribers_def setRequests_def setShowAddModal_def setNewEmail_def
  setShowConfetti_def setLoading_def setError_def notificationAsync_def send_def

lemmas handlers = handleAddSubscriber_def handleDeleteSubscriber_def handleApproveRequest_def
  handleDeleteRequest_def

lemmas resumes = handleAddSubscriber_resume_def handleDeleteSubscriber_resume_def
  handleApproveRequest_resume_def handleDeleteRequest_resume_def

lemmas examples = alice_def request_r1_def screen_with_alice_def screen_with_request_def
  add_modal_filled_def temp_bob_def server_bob_def add_sent_def initial_screen_def

lemmas trim_utf8_defs = trim_utf8_def ascii_white_space_def white_space_3_def

lemma find_filter_none: "find P (filter (\<lambda>x. \<not> P x) xs) = None"
  by (induction xs) auto

lemma filter_unchanged: "find P xs = None \<Longrightarrow> filter (\<lambda>x. \<not> P x) xs = xs"
  by (induction xs) (auto split: if_splits)

lemma find_Some_member: "find P xs = Some x \<Longrightarrow> x \<in> set xs \<and> P x"
  by (induction xs) (auto split: if_splits)

text \<open>The closure a handler suspends with is the closure it was called with.\<close>

lemma invoke_captured: "invoke trim a c s = (s', Some k) \<Longrightarrow> captured k = c"
  by (cases a) (auto simp: handlers Let_def split: if_splits option.splits)

text \<open>A handler that returns without suspending has returned at its guard, and has
  done nothing.\<close>

lemma invoke_none_unchanged: "invoke trim a c s = (s', None) \<Longrightarrow> s' = s"
  by (cases a) (auto simp: handlers Let_def split: if_splits option.splits)

text \<open>A press that leaves one more handler suspended is a run of that handler on
  the closure of the current render.\<close>

lemma press_suspended:
  assumes "awaiting (press trim a w) = awaiting w @ [k]"
  shows "invoke trim a (render (screen w)) (screen w) = (screen (press trim a w), Some k)"
proof (cases "invoke trim a (render (screen w)) (screen w)")
  case (Pair s' p)
  with assms show ?thesis
    by (cases p) (simp_all add: press_def)
qed

text \<open>The code after the \<^verbatim>\<open>await\<close> sends no request.\<close>

lemma resume_no_request:
  "\<exists>post. trace (resume k r now stamp s) = trace s @ post \<and> (\<forall>e \<in> set post. \<not> is_request e)"
  by (cases k; cases r) (auto simp: resumes Let_def setters is_request_def)

text \<open>What a rollback writes comes from the closure of its handler, that is from the
  screen the handler was started on, and not from the screen it finds.\<close>

lemma rollback_written_from_closure:
  assumes "invoke trim a (render b) b = (s1, Some k)"
  shows "written_from_snapshot k b (resume k (Rejected d) now stamp s)"
proof (cases a)
  case (Add_pressed n st)
  with assms have "k = Await_create (render b) (''temp-'' @ n)"
    by (auto simp: handlers Let_def split: if_splits)
  then show ?thesis
    by (simp add: written_from_snapshot_def resumes Let_def setters render_def)
next
  case (Subscriber_swiped subId)
  with assms obtain x where x: "find (has_id subId) (store_subscribers b) = Some x"
    and k: "k = Await_delete (render b) x"
    by (auto simp: handlers Let_def render_def split: option.splits)
  from find_Some_member [OF x] have "x \<in> set (store_subscribers b)" by simp
  then show ?thesis
    unfolding k
    by (auto simp: written_from_snapshot_def resumes Let_def setters render_def)
next
  case (Approve_pressed reqId)
  with assms obtain x where "k = Await_approve (render b) reqId x"
    by (auto simp: handlers Let_def split: option.splits)
  then show ?thesis
    by (simp add: written_from_snapshot_def resumes Let_def setters render_def)
next
  case (Request_swiped reqId)
  with assms obtain x where x: "find (has_id reqId) (requests_state b) = Some x"
    and k: "k = Await_delete_request (render b) x"
    by (auto simp: handlers Let_def render_def split: option.splits)
  from find_Some_member [OF x] have "x \<in> set (requests_state b)" by simp
  then show ?thesis
    unfolding k
    by (auto simp: written_from_snapshot_def resumes Let_def setters render_def)
qed

text \<open>\<open>handleAddSubscriber\<close> on the filled modal: the email is trimmed, the temporary
  record goes first, and the handler suspends on the create request.\<close>

lemma add_bob:
  "handleAddSubscriber trim_utf8 (render add_modal_filled) ''1700000000000''
      ''2023-11-14T22:13:20.000Z'' add_modal_filled
   = (add_sent, Some (Await_create (render add_modal_filled) ''temp-1700000000000''))"
  by (simp add: handleAddSubscriber_def Let_def setters render_def examples trim_utf8_defs)

lemma delete_alice:
  "handleDeleteSubscriber (render (screen screen_with_alice)) ''7'' (screen screen_with_alice)
   = (screen (press trim_utf8 (Subscriber_swiped ''7'') screen_with_alice),
      Some (Await_delete (render (screen screen_with_alice)) alice))"
  by (simp add: press_def handleDeleteSubscriber_def Let_def setters render_def examples
      has_id_def get_field_def)

lemma approve_r1:
  "handleApproveRequest (render (screen screen_with_request)) ''r1'' (screen screen_with_request)
   = (screen (press trim_utf8 (Approve_pressed ''r1'') screen_with_request),
      Some (Await_approve (render (screen screen_with_request)) ''r1'' request_r1))"
  by (simp add: press_def handleApproveRequest_def Let_def setters render_def examples
      has_id_def get_field_def)

lemma delete_r1:
  "handleDeleteRequest (render (screen screen_with_request)) ''r1'' (screen screen_with_request)
   = (screen (press trim_utf8 (Request_swiped ''r1'') screen_with_request),
      Some (Await_delete_request (render (screen screen_with_request)) request_r1))"
  by (simp add: press_def handleDeleteRequest_def Let_def setters render_def examples
      has_id_def get_field_def)


section \<open>Optimistic updates of the subscriptions screen\<close>

text \<open>
  C1, as it is stated, asks that the local change of every mutation be applied
  before any network call. The approve of a request changes the subscribers too, and
  that change comes after the answer: when \<open>handleApproveRequest\<close> has suspended on
  \<open>request_r1\<close>, the trace ends with the request and the store has no subscriber;
  the write of the new subscriber follows the request in the trace, once the remote
  has confirmed.
\<close>

theorem approve_adds_subscriber_after_answer:
  "trace (screen (press trim_utf8 (Approve_pressed ''r1'') screen_with_request))
     = [Requests_set [spread_with request_r1 ''status'' ''approved''], ShowConfetti_set True,
        Request (Request_approve ''r1'')] \<and>
   store_subscribers (screen (press trim_utf8 (Approve_pressed ''r1'') screen_with_request)) = [] \<and>
   trace (screen (settle 0 (Resolved []) ''1700000000450'' ''2023-11-14T22:13:20.450Z''
       (press trim_utf8 (Approve_pressed ''r1'') screen_with_request)))
     = [Requests_set [spread_with request_r1 ''status'' ''approved''], ShowConfetti_set True,
        Request (Request_approve ''r1''),
        Subscribers_set [[(''id'', ''sub-1700000000450''), (''email'', ''bob@example.com''),
                          (''name'', ''Bob''), (''created_at'', ''2023-11-14T22:13:20.450Z'')]],
        Haptic Haptic_success]"
  by (simp add: press_def settle_def render_def handlers resumes Let_def setters set_status_def
      has_id_def get_field_def literal_field_def examples)

text \<open>
  C1, as the code has it. Each of the four handlers, when it suspends, has applied
  its optimistic change and then sent its request, and has done so without an
  answer of the remote: the state it returns holds the changed list (adding puts
  the temporary record in front of the captured subscribers; deleting removes the
  records of the given id from the captured list; approving sets the status of the
  request in the captured requests), the other list is as it was, and the effects
  added to the trace are the write of that list first and the one request last.
  The code after the \<^verbatim>\<open>await\<close> sends no request. After an approve it makes one
  more local change, only when the remote has confirmed: it puts a new subscriber in
  front of the captured subscribers.
\<close>

theorem optimistic_change_then_request:
  assumes "invoke trim a c s = (s', Some k)"
  shows "(case a of
            Add_pressed now stamp \<Rightarrow>
              store_subscribers s'
                = [(''id'', ''temp-'' @ now), (''email'', trim (newEmail c)), (''created_at'', stamp)]
                  # subscribers c \<and>
              requests_state s' = requests_state s \<and>
              trace s' = trace s @
                [Subscribers_set (store_subscribers s'), ShowAddModal_set False, NewEmail_set [],
                 ShowConfetti_set True, Loading_set True,
                 Request (Subscriber_create (trim (newEmail c)))]
          | Subscriber_swiped subId \<Rightarrow>
              store_subscribers s' = filter (\<lambda>x. \<not> has_id subId x) (subscribers c) \<and>
              requests_state s' = requests_state s \<and>
              trace s' = trace s @
                [Subscribers_set (store_subscribers s'), Request (Subscriber_delete subId)]
          | Approve_pressed reqId \<Rightarrow>
              requests_state s'
                = map (\<lambda>r. if has_id reqId r then spread_with r ''status'' ''approved'' else r)
                    (requests c) \<and>
              store_subscribers s' = store_subscribers s \<and>
              trace s' = trace s @
                [Requests_set (requests_state s'), ShowConfetti_set True,
                 Request (Request_approve reqId)] \<and>
              (\<forall>data now stamp t. \<exists>newSub.
                 store_subscribers (resume k (Resolved data) now stamp t)
                   = newSub # subscribers c)
          | Request_swiped reqId \<Rightarrow>
              requests_state s' = filter (\<lambda>x. \<not> has_id reqId x) (requests c) \<and>
              store_subscribers s' = store_subscribers s \<and>
              trace s' = trace s @
                [Requests_set (requests_state s'), Request (Request_delete reqId)]) \<and>
         (\<forall>r now stamp t. \<exists>post.
            trace (resume k r now stamp t) = trace t @ post \<and>
            (\<forall>e \<in> set post. \<not> is_request e))"
proof
  show "\<forall>r now stamp t. \<exists>post.
          trace (resume k r now stamp t) = trace t @ post \<and>
          (\<forall>e \<in> set post. \<not> is_request e)"
    using resume_no_request by blast
  show "case a of
            Add_pressed now stamp \<Rightarrow>
              store_subscribers s'
                = [(''id'', ''temp-'' @ now), (''email'', trim (newEmail c)), (''created_at'', stamp)]
                  # subscribers c \<and>
              requests_state s' = requests_state s \<and>
              trace s' = trace s @
                [Subscribers_set (store_subscribers s'), ShowAddModal_set False, NewEmail_set [],
                 ShowConfetti_set True, Loading_set True,
                 Request (Subscriber_create (trim (newEmail c)))]
          | Subscriber_swiped subId \<Rightarrow>
              store_subscribers s' = filter (\<lambda>x. \<not> has_id subId x) (subscribers c) \<and>
              requests_state s' = requests_state s \<and>
              trace s' = trace s @
                [Subscribers_set (store_subscribers s'), Request (Subscriber_delete subId)]
          | Approve_pressed reqId \<Rightarrow>
              requests_state s'
                = map (\<lambda>r. if has_id reqId r then spread_with r ''status'' ''approved'' else r)
                    (requests c) \<and>
              store_subscribers s' = store_subscribers s \<and>
              trace s' = trace s @
                [Requests_set (requests_state s'), ShowConfetti_set True,
                 Request (Request_approve reqId)] \<and>
              (\<forall>data now stamp t. \<exists>newSub.
                 store_subscribers (resume k (Resolved data) now stamp t)
                   = newSub # subscribers c)
          | Request_swiped reqId \<Rightarrow>
              requests_state s' = filter (\<lambda>x. \<not> has_id reqId x) (requests c) \<and>
              store_subscribers s' = store_subscribers s \<and>
              trace s' = trace s @
                [Requests_set (requests_state s'), Request (Request_delete reqId)]"
  proof (cases a)
    case (Add_pressed now stamp)
    with assms show ?thesis
      by (auto simp: handlers Let_def setters split: if_splits)
  next
    case (Subscriber_swiped subId)
    with assms show ?thesis
      by (auto simp: handlers Let_def setters split: option.splits)
  next
    case (Approve_pressed reqId)
    with assms show ?thesis
      by (auto simp: handlers resumes Let_def setters set_status_def split: option.splits)
  next
    case (Request_swiped reqId)
    with assms show ?thesis
      by (auto simp: handlers Let_def setters split: option.splits)
  qed
qed

theorem optimistic_change_then_request_witness:
  "invoke trim_utf8 (Add_pressed ''1700000000000'' ''2023-11-14T22:13:20.000Z'')
       (render add_modal_filled) add_modal_filled
     = (add_sent, Some (Await_create (render add_modal_filled) ''temp-1700000000000'')) \<and>
   trace add_sent
     = [Subscribers_set [temp_bob, alice], ShowAddModal_set False, NewEmail_set [],
        ShowConfetti_set True, Loading_set True, Request (Subscriber_create ''bob@example.com'')] \<and>
   invoke trim_utf8 (Subscriber_swiped ''7'') (render (screen screen_with_alice))
       (screen screen_with_alice)
     = (screen (press trim_utf8 (Subscriber_swiped ''7'') screen_with_alice),
        Some (Await_delete (render (screen screen_with_alice)) alice)) \<and>
   trace (screen (press trim_utf8 (Subscriber_swiped ''7'') screen_with_alice))
     = [Subscribers_set [], Request (Subscriber_delete ''7'')] \<and>
   invoke trim_utf8 (Approve_pressed ''r1'') (render (screen screen_with_request))
       (screen screen_with_request)
     = (screen (press trim_utf8 (Approve_pressed ''r1'') screen_with_request),
        Some (Await_approve (render (screen screen_with_request)) ''r1'' request_r1)) \<and>
   trace (screen (press trim_utf8 (Approve_pressed ''r1'') screen_with_request))
     = [Requests_set [spread_with request_r1 ''status'' ''approved''], ShowConfetti_set True,
        Request (Request_approve ''r1'')] \<and>
   invoke trim_utf8 (Request_swiped ''r1'') (render (screen screen_with_request))
       (screen screen_with_request)
     = (screen (press trim_utf8 (Request_swiped ''r1'') screen_with_request),
        Some (Await_delete_request (render (screen screen_with_request)) request_r1)) \<and>
   trace (screen (press trim_utf8 (Request_swiped ''r1'') screen_with_request))
     = [Requests_set [], Request (Request_delete ''r1'')]"
proof -
  have add: "invoke trim_utf8 (Add_pressed ''1700000000000'' ''2023-11-14T22:13:20.000Z'')
       (render add_modal_filled) add_modal_filled
     = (add_sent, Some (Await_create (render add_modal_filled) ''temp-1700000000000''))"
    using add_bob by simp
  have del: "invoke trim_utf8 (Subscriber_swiped ''7'') (render (screen screen_with_alice))
       (screen screen_with_alice)
     = (screen (press trim_utf8 (Subscriber_swiped ''7'') screen_with_alice),
        Some (Await_delete (render (screen screen_with_alice)) alice))"
    using delete_alice by simp
  have app: "invoke trim_utf8 (Approve_pressed ''r1'') (render (screen screen_with_request))
       (screen screen_with_request)
     = (screen (press trim_utf8 (Approve_pressed ''r1'') screen_with_request),
        Some (Await_approve (render (screen screen_with_request)) ''r1'' request_r1))"
    using approve_r1 by simp
  have delr: "invoke trim_utf8 (Request_swiped ''r1'') (render (screen screen_with_request))
       (screen screen_with_request)
     = (screen (press trim_utf8 (Request_swiped ''r1'') screen_with_request),
        Some (Await_delete_request (render (screen screen_with_request)) request_r1))"
    using delete_r1 by simp
  have t_add: "trace add_sent
     = [Subscribers_set [temp_bob, alice], ShowAddModal_set False, NewEmail_set [],
        ShowConfetti_set True, Loading_set True, Request (Subscriber_create ''bob@example.com'')]"
    using optimistic_change_then_request [OF add]
    by (simp add: render_def examples trim_utf8_defs)
  have t_del: "trace (screen (press trim_utf8 (Subscriber_swiped ''7'') screen_with_alice))
     = [Subscribers_set [], Request (Subscriber_delete ''7'')]"
    using optimistic_change_then_request [OF del]
    by (simp add: render_def examples has_id_def get_field_def)
  have t_app: "trace (screen (press trim_utf8 (Approve_pressed ''r1'') screen_with_request))
     = [Requests_set [spread_with request_r1 ''status'' ''approved''], ShowConfetti_set True,
        Request (Request_approve ''r1'')]"
    using optimistic_change_then_request [OF app]
    by (simp add: render_def examples has_id_def get_field_def)
  have t_delr: "trace (screen (press trim_utf8 (Request_swiped ''r1'') screen_with_request))
     = [Requests_set [], Request (Request_delete ''r1'')]"
    using optimistic_change_then_request [OF delr]
    by (simp add: render_def examples has_id_def get_field_def)
  from add del app delr t_add t_del t_app t_delr show ?thesis by simp
qed

text \<open>
  C2. A create that was applied optimistically and then fails: once
  \<open>handleAddSubscriber\<close> has suspended, the store holds a record whose id is the
  temporary id \<^verbatim>\<open>temp-<now>\<close>; when the request is rejected, the rollback leaves
  the store with no record of that id, whatever the screen held when the rejection
  arrived.
\<close>

theorem failed_create_leaves_no_temp_record:
  assumes "handleAddSubscriber trim c now stamp s = (s1, Some k)"
  shows "find (has_id (''temp-'' @ now)) (store_subscribers s1) \<noteq> None \<and>
         find (has_id (''temp-'' @ now))
           (store_subscribers (resume k (Rejected detail) now' stamp' s2)) = None"
proof -
  from assms have k: "k = Await_create c (''temp-'' @ now)"
    and s1: "store_subscribers s1 =
      [(''id'', ''temp-'' @ now), (''email'', trim (newEmail c)), (''created_at'', stamp)]
      # subscribers c"
    by (auto simp: handleAddSubscriber_def Let_def setters split: if_splits)
  have "find (has_id (''temp-'' @ now)) (store_subscribers s1) \<noteq> None"
    unfolding s1 by (simp add: has_id_def get_field_def)
  moreover have "find (has_id (''temp-'' @ now))
      (store_subscribers (resume k (Rejected detail) now' stamp' s2)) = None"
    unfolding k by (simp add: handleAddSubscriber_resume_def Let_def setters find_filter_none)
  ultimately show ?thesis by simp
qed

theorem failed_create_leaves_no_temp_record_witness:
  "handleAddSubscriber trim_utf8 (render add_modal_filled) ''1700000000000''
       ''2023-11-14T22:13:20.000Z'' add_modal_filled
     = (add_sent, Some (Await_create (render add_modal_filled) ''temp-1700000000000'')) \<and>
   find (has_id ''temp-1700000000000'') (store_subscribers add_sent) = Some temp_bob \<and>
   find (has_id ''temp-1700000000000'')
     (store_subscribers (resume (Await_create (render add_modal_filled) ''temp-1700000000000'')
        (Rejected (Some ''Email already subscribed'')) ''1700000000450''
        ''2023-11-14T22:13:20.450Z'' add_sent)) = None"
  using add_bob
    failed_create_leaves_no_temp_record [OF add_bob, of "Some ''Email already subscribed''"
      "''1700000000450''" "''2023-11-14T22:13:20.450Z''" add_sent]
  by (simp add: has_id_def get_field_def temp_bob_def add_sent_def)

text \<open>
  What the two subscriber rollbacks write. The rollback of a create restores the
  captured list when no captured record has the temporary id. The rollback of a
  delete writes the captured list, which still holds the deleted record, with that
  record added once more at the end.
\<close>

lemma create_rollback_restores_snapshot:
  assumes "handleAddSubscriber trim c now stamp s = (s1, Some k)"
    and "find (has_id (''temp-'' @ now)) (subscribers c) = None"
  shows "store_subscribers (resume k (Rejected detail) now' stamp' s2) = subscribers c"
proof -
  from assms(1) have k: "k = Await_create c (''temp-'' @ now)"
    by (auto simp: handleAddSubscriber_def Let_def split: if_splits)
  show ?thesis
    unfolding k using assms(2)
    by (simp add: handleAddSubscriber_resume_def Let_def setters filter_unchanged)
qed

lemma delete_rollback_appends:
  assumes "handleDeleteSubscriber c subId s = (s1, Some k)"
  shows "\<exists>subToDelete. subToDelete \<in> set (subscribers c) \<and>
           store_subscribers (resume k (Rejected detail) now stamp s2)
             = subscribers c @ [subToDelete]"
proof -
  from assms obtain x where x: "find (has_id subId) (subscribers c) = Some x"
    and k: "k = Await_delete c x"
    by (auto simp: handleDeleteSubscriber_def Let_def split: option.splits)
  have "x \<in> set (subscribers c)" using find_Some_member [OF x] by simp
  moreover have "store_subscribers (resume k (Rejected detail) now stamp s2) = subscribers c @ [x]"
    unfolding k by (simp add: handleDeleteSubscriber_resume_def Let_def setters)
  ultimately show ?thesis by blast
qed

text \<open>
  C3. The rollback of a failed mutation is to restore the list exactly as it was
  before the mutation. For a delete it does not: with the one subscriber
  \<open>alice\<close> in the store, the delete gesture on her row removes her, and when
  the remote rejects the delete the rollback stores her twice.
\<close>

theorem delete_rollback_duplicates_record:
  "store_subscribers (screen (press trim_utf8 (Subscriber_swiped ''7'') screen_with_alice)) = [] \<and>
   store_subscribers (screen (settle 0 (Rejected None) ''1700000000450''
       ''2023-11-14T22:13:20.450Z'' (press trim_utf8 (Subscriber_swiped ''7'') screen_with_alice)))
     = [alice, alice]"
  by (simp add: press_def settle_def render_def handleDeleteSubscriber_def
      handleDeleteSubscriber_resume_def Let_def setters has_id_def get_field_def examples)

text \<open>
  C4, as the code has it. When a second mutation is applied before the first is
  confirmed, the lists the second captures for its rollback are the lists as the
  first mutation left them, not the original ones, and the first had captured the
  original lists. A rollback runs when its own request is rejected, whatever the
  order of application, and writes from what its own handler captured, for every
  state the screen is in by then: the rollback of the second mutation writes from
  the lists after the first, the rollback of the first from the original lists,
  without regard to the second.
\<close>

theorem rollback_writes_from_own_snapshot:
  assumes "awaiting (press trim a1 w0) = awaiting w0 @ [k1]"
    and "awaiting (press trim a2 (press trim a1 w0)) = awaiting (press trim a1 w0) @ [k2]"
  shows "captured k1 = render (screen w0) \<and>
         captured k2 = render (screen (press trim a1 w0)) \<and>
         (\<forall>d now stamp s.
            written_from_snapshot k2 (screen (press trim a1 w0))
              (resume k2 (Rejected d) now stamp s)) \<and>
         (\<forall>d now stamp s.
            written_from_snapshot k1 (screen w0) (resume k1 (Rejected d) now stamp s))"
proof -
  note first = press_suspended [OF assms(1)]
  note second = press_suspended [OF assms(2)]
  from invoke_captured [OF first] invoke_captured [OF second]
    rollback_written_from_closure [OF first] rollback_written_from_closure [OF second]
  show ?thesis by blast
qed

theorem rollback_writes_from_own_snapshot_witness:
  "awaiting (press trim_utf8 (Approve_pressed ''r1'') screen_with_request)
     = awaiting screen_with_request
       @ [Await_approve (render (screen screen_with_request)) ''r1'' request_r1] \<and>
   awaiting (press trim_utf8 (Request_swiped ''r1'')
       (press trim_utf8 (Approve_pressed ''r1'') screen_with_request))
     = awaiting (press trim_utf8 (Approve_pressed ''r1'') screen_with_request)
       @ [Await_delete_request
            (render (screen (press trim_utf8 (Approve_pressed ''r1'') screen_with_request)))
            (spread_with request_r1 ''status'' ''approved'')] \<and>
   requests (captured (Await_approve (render (screen screen_with_request)) ''r1'' request_r1))
     = [request_r1] \<and>
   requests (captured (Await_delete_request
            (render (screen (press trim_utf8 (Approve_pressed ''r1'') screen_with_request)))
            (spread_with request_r1 ''status'' ''approved'')))
     = [spread_with request_r1 ''status'' ''approved''] \<and>
   requests_state (resume (Await_approve (render (screen screen_with_request)) ''r1'' request_r1)
       (Rejected None) ''1700000000450'' ''2023-11-14T22:13:20.450Z''
       (screen (press trim_utf8 (Request_swiped ''r1'')
          (press trim_utf8 (Approve_pressed ''r1'') screen_with_request))))
     = [request_r1] \<and>
   set (requests_state (resume (Await_delete_request
            (render (screen (press trim_utf8 (Approve_pressed ''r1'') screen_with_request)))
            (spread_with request_r1 ''status'' ''approved''))
       (Rejected None) ''1700000000450'' ''2023-11-14T22:13:20.450Z''
       (screen (press trim_utf8 (Request_swiped ''r1'')
          (press trim_utf8 (Approve_pressed ''r1'') screen_with_request)))))
     = {spread_with request_r1 ''status'' ''approved''}"
proof -
  have before: "requests_state (screen screen_with_request) = [request_r1]"
    by (simp add: examples)
  have after: "requests_state (screen (press trim_utf8 (Approve_pressed ''r1'') screen_with_request))
      = [spread_with request_r1 ''status'' ''approved'']"
    by (simp add: press_def handlers Let_def setters render_def set_status_def has_id_def
        get_field_def examples)
  have first: "awaiting (press trim_utf8 (Approve_pressed ''r1'') screen_with_request)
     = awaiting screen_with_request
       @ [Await_approve (render (screen screen_with_request)) ''r1'' request_r1]"
    by (simp add: press_def handlers Let_def render_def has_id_def get_field_def examples)
  have second: "awaiting (press trim_utf8 (Request_swiped ''r1'')
       (press trim_utf8 (Approve_pressed ''r1'') screen_with_request))
     = awaiting (press trim_utf8 (Approve_pressed ''r1'') screen_with_request)
       @ [Await_delete_request
            (render (screen (press trim_utf8 (Approve_pressed ''r1'') screen_with_request)))
            (spread_with request_r1 ''status'' ''approved'')]"
    by (simp add: press_def handlers Let_def setters render_def set_status_def has_id_def
        get_field_def examples)
  note inst = rollback_writes_from_own_snapshot [OF first second]
  have cap1: "requests (captured (Await_approve (render (screen screen_with_request)) ''r1''
      request_r1)) = [request_r1]"
    using inst before by (simp add: render_def)
  have cap2: "requests (captured (Await_delete_request
            (render (screen (press trim_utf8 (Approve_pressed ''r1'') screen_with_request)))
            (spread_with request_r1 ''status'' ''approved'')))
     = [spread_with request_r1 ''status'' ''approved'']"
    using inst after by (simp add: render_def)
  have back1: "requests_state (resume (Await_approve (render (screen screen_with_request)) ''r1''
        request_r1)
       (Rejected None) ''1700000000450'' ''2023-11-14T22:13:20.450Z''
       (screen (press trim_utf8 (Request_swiped ''r1'')
          (press trim_utf8 (Approve_pressed ''r1'') screen_with_request))))
     = map (set_status ''r1'' ''pending'') (requests_state (screen screen_with_request))"
    using inst by (simp add: written_from_snapshot_def)
  have back2: "set (requests_state (resume (Await_delete_request
            (render (screen (press trim_utf8 (Approve_pressed ''r1'') screen_with_request)))
            (spread_with request_r1 ''status'' ''approved''))
       (Rejected None) ''1700000000450'' ''2023-11-14T22:13:20.450Z''
       (screen (press trim_utf8 (Request_swiped ''r1'')
          (press trim_utf8 (Approve_pressed ''r1'') screen_with_request)))))
     = set (requests_state (screen (press trim_utf8 (Approve_pressed ''r1'') screen_with_request)))"
    using inst by (simp add: written_from_snapshot_def)
  have pending_again: "map (set_status ''r1'' ''pending'') [request_r1] = [request_r1]"
    by (simp add: set_status_def has_id_def get_field_def request_r1_def)
  from first second cap1 cap2 back1 back2 show ?thesis
    by (simp only: before after pending_again list.set simp_thms)
qed

text \<open>
  C4, as it is stated, asks that rollbacks unwind in the reverse order of application
  and never past a later mutation that is not confirmed. On a screen with the one
  pending request \<open>request_r1\<close>, the user approves it and then deletes it, so the
  list is empty. The approve is rejected first: the delete is still suspended (it
  captured the list with the approved request), and the rollback of the approve,
  the mutation applied first, puts the request back as pending.
\<close>

theorem rollback_reverts_past_unconfirmed_delete:
  "requests_state (screen (press trim_utf8 (Request_swiped ''r1'')
       (press trim_utf8 (Approve_pressed ''r1'') screen_with_request))) = [] \<and>
   map captured (awaiting (settle 0 (Rejected None) ''1700000000450''
       ''2023-11-14T22:13:20.450Z''
       (press trim_utf8 (Request_swiped ''r1'') (press trim_utf8 (Approve_pressed ''r1'') screen_with_request))))
     = [\<lparr>subscribers = [], requests = [spread_with request_r1 ''status'' ''approved''],
         newEmail = []\<rparr>] \<and>
   requests_state (screen (settle 0 (Rejected None) ''1700000000450''
       ''2023-11-14T22:13:20.450Z''
       (press trim_utf8 (Request_swiped ''r1'') (press trim_utf8 (Approve_pressed ''r1'') screen_with_request))))
     = [request_r1]"
  by (simp add: press_def settle_def render_def handlers resumes Let_def setters set_status_def
      has_id_def get_field_def examples)

text \<open>
  C5, as it is stated, fails on the subscriber that \<open>handleApproveRequest\<close> creates:
  nothing is in the store for it after the optimistic apply, and when the remote
  confirms, whatever it returns (here a record of id \<^verbatim>\<open>S1\<close>), the record that
  is stored has the id \<^verbatim>\<open>sub-<now>\<close> made on the device.
\<close>

theorem approved_subscriber_keeps_local_id:
  "store_subscribers (screen (press trim_utf8 (Approve_pressed ''r1'') screen_with_request)) = [] \<and>
   store_subscribers (screen (settle 0 (Resolved [(''id'', ''S1'')]) ''1700000000450''
       ''2023-11-14T22:13:20.450Z'' (press trim_utf8 (Approve_pressed ''r1'') screen_with_request)))
     = [[(''id'', ''sub-1700000000450''), (''email'', ''bob@example.com''), (''name'', ''Bob''),
         (''created_at'', ''2023-11-14T22:13:20.450Z'')]]"
  by (simp add: press_def settle_def render_def handlers resumes Let_def setters set_status_def
      has_id_def get_field_def literal_field_def examples)

text \<open>
  C5, as the code has it. For a create made by \<open>handleAddSubscriber\<close>: once the
  handler has suspended, the store is the captured list with a new record in front
  whose id is \<^verbatim>\<open>temp-<now>\<close> and which has no \<^verbatim>\<open>server_id\<close>; when the remote
  confirms, the store becomes the record the remote returned followed by the
  captured list without the records of id \<^verbatim>\<open>temp-<now>\<close>, and \<open>loading\<close> is
  false. For the subscriber of an approved request: the store is not changed before
  the confirmation, and on confirmation a record whose id is \<^verbatim>\<open>sub-<now>\<close>, read
  from the clock at that moment, is put in front of the captured list.
\<close>

theorem confirmed_create_replaces_temp_record:
  "(handleAddSubscriber trim c now stamp s = (s1, Some k) \<longrightarrow>
      (\<exists>optimisticSub.
          store_subscribers s1 = optimisticSub # subscribers c \<and>
          get_field optimisticSub ''id'' = Some (''temp-'' @ now) \<and>
          get_field optimisticSub ''server_id'' = None) \<and>
      store_subscribers (resume k (Resolved data) now' stamp' s2)
        = data # filter (\<lambda>x. \<not> has_id (''temp-'' @ now) x) (subscribers c) \<and>
      loading (resume k (Resolved data) now' stamp' s2) = False) \<and>
   (handleApproveRequest c' reqId t = (t1, Some j) \<longrightarrow>
      store_subscribers t1 = store_subscribers t \<and>
      (\<exists>newSub.
          store_subscribers (resume j (Resolved data) now' stamp' t2) = newSub # subscribers c' \<and>
          get_field newSub ''id'' = Some (''sub-'' @ now')))"
proof (intro conjI impI)
  assume "handleAddSubscriber trim c now stamp s = (s1, Some k)"
  then have k: "k = Await_create c (''temp-'' @ now)"
    and s1: "store_subscribers s1 =
      [(''id'', ''temp-'' @ now), (''email'', trim (newEmail c)), (''created_at'', stamp)]
      # subscribers c"
    by (auto simp: handleAddSubscriber_def Let_def setters split: if_splits)
  show "\<exists>optimisticSub.
          store_subscribers s1 = optimisticSub # subscribers c \<and>
          get_field optimisticSub ''id'' = Some (''temp-'' @ now) \<and>
          get_field optimisticSub ''server_id'' = None"
    unfolding s1 by (simp add: get_field_def)
  show "store_subscribers (resume k (Resolved data) now' stamp' s2)
        = data # filter (\<lambda>x. \<not> has_id (''temp-'' @ now) x) (subscribers c)"
    unfolding k by (simp add: handleAddSubscriber_resume_def Let_def setters)
  show "loading (resume k (Resolved data) now' stamp' s2) = False"
    unfolding k by (simp add: handleAddSubscriber_resume_def Let_def setters)
next
  assume "handleApproveRequest c' reqId t = (t1, Some j)"
  then obtain request where j: "j = Await_approve c' reqId request"
    and t1: "store_subscribers t1 = store_subscribers t"
    by (auto simp: handleApproveRequest_def Let_def setters split: option.splits)
  show "store_subscribers t1 = store_subscribers t" by (rule t1)
  show "\<exists>newSub.
          store_subscribers (resume j (Resolved data) now' stamp' t2) = newSub # subscribers c' \<and>
          get_field newSub ''id'' = Some (''sub-'' @ now')"
    unfolding j by (simp add: handleApproveRequest_resume_def Let_def setters get_field_def)
qed

theorem confirmed_create_replaces_temp_record_witness:
  "handleAddSubscriber trim_utf8 (render add_modal_filled) ''1700000000000''
       ''2023-11-14T22:13:20.000Z'' add_modal_filled
     = (add_sent, Some (Await_create (render add_modal_filled) ''temp-1700000000000'')) \<and>
   store_subscribers add_sent = [temp_bob, alice] \<and>
   store_subscribers (resume (Await_create (render add_modal_filled) ''temp-1700000000000'')
       (Resolved server_bob) ''1700000000450'' ''2023-11-14T22:13:20.450Z'' add_sent)
     = [server_bob, alice] \<and>
   loading (resume (Await_create (render add_modal_filled) ''temp-1700000000000'')
       (Resolved server_bob) ''1700000000450'' ''2023-11-14T22:13:20.450Z'' add_sent) = False \<and>
   handleApproveRequest (render (screen screen_with_request)) ''r1'' (screen screen_with_request)
     = (screen (press trim_utf8 (Approve_pressed ''r1'') screen_with_request),
        Some (Await_approve (render (screen screen_with_request)) ''r1'' request_r1)) \<and>
   store_subscribers (screen (press trim_utf8 (Approve_pressed ''r1'') screen_with_request)) = []"
proof -
  note both = confirmed_create_replaces_temp_record
    [where trim = trim_utf8 and c = "render add_modal_filled" and now = "''1700000000000''"
       and stamp = "''2023-11-14T22:13:20.000Z''" and s = add_modal_filled and ?s1.0 = add_sent
       and k = "Await_create (render add_modal_filled) ''temp-1700000000000''"
       and data = server_bob and now' = "''1700000000450''"
       and stamp' = "''2023-11-14T22:13:20.450Z''" and ?s2.0 = add_sent
       and c' = "render (screen screen_with_request)"
       and reqId = "''r1''" and t = "screen screen_with_request"
       and ?t1.0 = "screen (press trim_utf8 (Approve_pressed ''r1'') screen_with_request)"
       and j = "Await_approve (render (screen screen_with_request)) ''r1'' request_r1"
       and ?t2.0 = "screen (press trim_utf8 (Approve_pressed ''r1'') screen_with_request)"]
  have subs: "store_subscribers add_sent = [temp_bob, alice]"
    by (simp add: add_sent_def)
  have kept: "filter (\<lambda>x. \<not> has_id ''temp-1700000000000'' x) (subscribers (render add_modal_filled))
      = [alice]"
    by (simp add: render_def has_id_def get_field_def examples)
  have none: "store_subscribers (screen screen_with_request) = []"
    by (simp add: examples)
  have unchanged: "store_subscribers (screen (press trim_utf8 (Approve_pressed ''r1'') screen_with_request))
      = store_subscribers (screen screen_with_request)"
    using both approve_r1 by simp
  have confirmed: "store_subscribers (resume (Await_create (render add_modal_filled)
        ''temp-1700000000000'') (Resolved server_bob) ''1700000000450''
        ''2023-11-14T22:13:20.450Z'' add_sent)
      = server_bob # filter (\<lambda>x. \<not> has_id ''temp-1700000000000'' x)
          (subscribers (render add_modal_filled))"
    and idle: "loading (resume (Await_create (render add_modal_filled) ''temp-1700000000000'')
        (Resolved server_bob) ''1700000000450'' ''2023-11-14T22:13:20.450Z'' add_sent) = False"
    using both add_bob by simp_all
  show ?thesis
    using add_bob approve_r1 subs confirmed idle unchanged
    by (simp only: kept none simp_thms)
qed

section \<open>Adding a subscriber with a blank email\<close>

text \<open>
  C9. When the email of the closure trims to the empty string, \<open>handleAddSubscriber\<close>
  returns at its first line: the state it returns is the state it was given, with
  the same subscribers, error, loading and confetti values, nothing is added to the
  trace (so no setter ran and no request was sent), and nothing is left awaiting.
  This holds for whatever function \<open>trim\<close> is, so for the engine's.
\<close>

theorem handleAddSubscriber_blank_noop:
  assumes "trim (newEmail c) = []"
  shows "handleAddSubscriber trim c now stamp s = (s, None)"
  using assms by (simp add: handleAddSubscriber_def)

text \<open>An email of a space, a no-break space and a tab.\<close>

theorem handleAddSubscriber_blank_noop_witness:
  "trim_utf8 (newEmail \<lparr>subscribers = [alice], requests = [],
       newEmail = [CHR 0x20, CHR 0xC2, CHR 0xA0, CHR 0x09]\<rparr>) = [] \<and>
   handleAddSubscriber trim_utf8
       \<lparr>subscribers = [alice], requests = [], newEmail = [CHR 0x20, CHR 0xC2, CHR 0xA0, CHR 0x09]\<rparr>
       ''1700000000000'' ''2023-11-14T22:13:20.000Z''
       ((initial_screen [alice])\<lparr>showAddModal := True,
          newEmail_state := [CHR 0x20, CHR 0xC2, CHR 0xA0, CHR 0x09]\<rparr>)
     = ((initial_screen [alice])\<lparr>showAddModal := True,
          newEmail_state := [CHR 0x20, CHR 0xC2, CHR 0xA0, CHR 0x09]\<rparr>, None)"
proof -
  have blank: "trim_utf8 (newEmail \<lparr>subscribers = [alice], requests = [],
       newEmail = [CHR 0x20, CHR 0xC2, CHR 0xA0, CHR 0x09]\<rparr>) = []"
    by (simp add: trim_utf8_defs)
  from blank handleAddSubscriber_blank_noop [where trim = trim_utf8, OF blank] show ?thesis by blast
qed


section \<open>Columns of the synchronized tables\<close>

lemmas schema_defs = column_of_def appSchema_def required_def optional_def indexed_def
  optional_server_id_def has_timestamps_def

text \<open>
  C7, as it is stated, asks of every synchronized table an optional \<^verbatim>\<open>server_id\<close>.
  The cart items table declares no \<^verbatim>\<open>server_id\<close> column, and the \<^verbatim>\<open>server_id\<close> of
  the products table is not optional.
\<close>

theorem cart_items_and_products_lack_optional_server_id:
  "column_of ''cart_items'' ''server_id'' = None \<and>
   \<not> optional_server_id ''cart_items'' \<and>
   \<not> optional_server_id ''products''"
  by (simp add: schema_defs)

text \<open>
  C7, as the schema has it. Of the tables of the entity types the claim names, only
  \<^verbatim>\<open>favorites\<close> declares \<^verbatim>\<open>server_id\<close> as an optional string; \<^verbatim>\<open>products\<close>
  declares it as a required string; \<^verbatim>\<open>cart_items\<close> declares none; the schema has
  no table of subscribers. Each of the three tables declares \<^verbatim>\<open>created_at\<close> and
  \<^verbatim>\<open>updated_at\<close> as required numbers, and none declares an \<^verbatim>\<open>id\<close> column: the
  local id is not part of the schema.
\<close>

theorem server_id_and_timestamp_columns:
  "optional_server_id ''favorites'' \<and>
   column_of ''products'' ''server_id'' = Some (required ''server_id'' String_type) \<and>
   column_of ''cart_items'' ''server_id'' = None \<and>
   find (\<lambda>x. table_name x = ''subscribers'') (tables appSchema) = None \<and>
   has_timestamps ''products'' \<and> has_timestamps ''favorites'' \<and> has_timestamps ''cart_items'' \<and>
   column_of ''products'' ''id'' = None \<and> column_of ''favorites'' ''id'' = None \<and>
   column_of ''cart_items'' ''id'' = None"
  by (simp add: schema_defs)


section \<open>Who sees the owner tab\<close>

text \<open>For a user who has an email, the owner tab is returned exactly when that email,
  lowered, is the owner's email lowered or the lowered email of a partner record.\<close>

lemma owner_tab_for_user_with_email:
  assumes "user_email user = Some e"
  shows "(''owner-access'' \<in> set (TabLayout toLowerCase partners user))
     = (toLowerCase e = toLowerCase OWNER_EMAIL \<or>
        (\<exists>p \<in> set partners. \<exists>pe. get_field p ''email'' = Some pe \<and>
           toLowerCase pe = toLowerCase e))"
proof -
  have "(optional_toLowerCase toLowerCase x = Some (toLowerCase e))
      = (\<exists>pe. x = Some pe \<and> toLowerCase pe = toLowerCase e)" for x
    by (cases x) (simp_all add: optional_toLowerCase_def)
  then show ?thesis
    using assms
    by (simp add: TabLayout_def canAccessOwner_def isOwner_def isPartner_def list_ex_iff
        optional_toLowerCase_def)
qed

text \<open>With no email and no partner record, the tab is not returned.\<close>

lemma no_owner_tab_without_email_and_partners:
  "user_email user = None \<Longrightarrow> ''owner-access'' \<notin> set (TabLayout toLowerCase [] user)"
  by (simp add: TabLayout_def canAccessOwner_def isOwner_def isPartner_def
      optional_toLowerCase_def)

text \<open>
  C8. The owner tab is to be returned only to a user whose email is the owner's or
  a partner's, up to the case of letters. Nobody is signed in, so there is no
  email, and one partner record has no email: both \<^verbatim>\<open>?.toLowerCase()\<close> give
  \<^verbatim>\<open>undefined\<close>, \<^verbatim>\<open>===\<close> holds between them, and the tab is returned, whatever
  \<open>toLowerCase\<close> does.
\<close>

theorem owner_tab_shown_without_any_email:
  "user_email None = None \<and>
   get_field [(''id'', ''p1''), (''name'', ''Sam'')] ''email'' = None \<and>
   \<not> isOwner toLowerCase None \<and>
   TabLayout toLowerCase [[(''id'', ''p1''), (''name'', ''Sam'')]] None
     = [''index'', ''categories'', ''owner-access'', ''cart'', ''profile'']"
  by (simp add: TabLayout_def canAccessOwner_def isOwner_def isPartner_def user_email_def
      get_field_def optional_toLowerCase_def)


section \<open>Statuses of the order status indicator\<close>

lemmas indicator_defs = OrderStatusIndicator_def index_STATUS_CONFIG_def STATUS_CONFIG_def
  object_prototype_keys_def or_else_def config_color_def config_pulse_def

text \<open>The pulse runs for the five statuses configured with it, and for no other
  string.\<close>

lemma pulsing_iff:
  "pulsing (OrderStatusIndicator (Some st)) =
     (st \<in> {''pending'', ''confirmed'', ''preparing'', ''shipped'', ''out_for_delivery''})"
  by (simp add: indicator_defs Let_def)

text \<open>A status that is neither a configured key nor a property every object inherits
  is rendered as \<^verbatim>\<open>no_active_order\<close> is; so is a status that was left out.\<close>

lemma unknown_status_falls_back:
  "st \<notin> fst ` set STATUS_CONFIG \<Longrightarrow> st \<notin> set object_prototype_keys \<Longrightarrow>
   OrderStatusIndicator (Some st) = OrderStatusIndicator (Some ''no_active_order'')"
  by (simp add: indicator_defs Let_def)

lemma missing_status_is_default:
  "OrderStatusIndicator None = OrderStatusIndicator (Some ''no_active_order'')"
  by (simp add: OrderStatusIndicator_def)

text \<open>
  C10. A status outside the eight configured keys is to be rendered with the
  \<^verbatim>\<open>no_active_order\<close> configuration, a blue dot without pulse. The status
  \<^verbatim>\<open>constructor\<close> is not a configured key, yet \<^verbatim>\<open>STATUS_CONFIG[status]\<close> finds the
  inherited property, which is truthy, so the fallback is not taken: the dot has no
  colour, where \<^verbatim>\<open>no_active_order\<close> gives the blue \<^verbatim>\<open>#3B82F6\<close>. A status that is
  in neither list, such as \<^verbatim>\<open>refunded\<close>, does fall back.
\<close>

theorem inherited_key_is_not_rendered_as_no_active_order:
  "map_of STATUS_CONFIG ''constructor'' = None \<and>
   OrderStatusIndicator (Some ''constructor'')
     = \<lparr>backgroundColor = None, pulsing = False, shadowRadius = 2, elevation = 2\<rparr> \<and>
   OrderStatusIndicator (Some ''no_active_order'')
     = \<lparr>backgroundColor = Some ''#3B82F6'', pulsing = False, shadowRadius = 2, elevation = 2\<rparr> \<and>
   OrderStatusIndicator (Some ''refunded'')
     = \<lparr>backgroundColor = Some ''#3B82F6'', pulsing = False, shadowRadius = 2, elevation = 2\<rparr>"
  by (simp add: indicator_defs)

end
